theory Spec2Isabelle
  imports Complex_Main
begin

section \<open>General distillation of TinyBERT: a shallow embedding of \<open>general_distill.py\<close>\<close>

text \<open>
  The theory follows \<open>src/TinyBERT/general_distill.py\<close>. Python integers are \<open>int\<close>,
  sizes and loop indices that the code only counts upwards from 0 are \<open>nat\<close>, tensor
  entries and losses are \<open>real\<close> (the properties below only use comparisons, zero and
  sums of squares, never rounding), and every raise, assert and exit of the source is a
  value \<open>Inl e\<close> of a result type \<open>error + 'a\<close>.
\<close>

datatype error =
  IndexError | ValueError | AssertionError | ZeroDivisionError | AttributeError | SystemExit

subsection \<open>The numpy operations the feature encoder uses\<close>

text \<open>
  \<open>a[:len(vals)] = vals\<close> on a one-dimensional array. The slice has
  \<open>min (len vals) (len a)\<close> cells; numpy raises ValueError when the value cannot be
  broadcast to it (a single value broadcasts to any slice).
\<close>

definition np_set_prefix :: "'a list \<Rightarrow> 'a list \<Rightarrow> error + 'a list" where
  "np_set_prefix arr vals =
     (if length vals \<le> length arr then Inr (vals @ drop (length vals) arr)
      else if length vals = 1 then Inr (replicate (length arr) (hd vals))
      else Inl ValueError)"

text \<open>\<open>a[:k] = v\<close> for a scalar \<open>v\<close>: the first \<open>min k (len a)\<close> cells become \<open>v\<close>.\<close>

definition np_fill_prefix :: "'a list \<Rightarrow> nat \<Rightarrow> 'a \<Rightarrow> 'a list" where
  "np_fill_prefix arr k v = replicate (min k (length arr)) v @ drop k arr"

text \<open>
  An integer index \<open>p\<close> into an array of \<open>n\<close> cells is in bounds when \<open>-n \<le> p < n\<close>;
  a negative index counts from the end.
\<close>

definition np_in_bounds :: "nat \<Rightarrow> int \<Rightarrow> bool" where
  "np_in_bounds n p = (- int n \<le> p \<and> p < int n)"

definition np_norm :: "nat \<Rightarrow> int \<Rightarrow> nat" where
  "np_norm n p = (if p < 0 then nat (p + int n) else nat p)"

text \<open>
  \<open>a[positions] = vals\<close> with a list of integer indices. The value is broadcast to the
  shape of the index first (ValueError when it has neither one entry nor as many as the
  index), then every index is checked (IndexError), then the cells are written in
  order, so the last write to a repeated index stays.
\<close>

definition np_put :: "int list \<Rightarrow> int list \<Rightarrow> int list \<Rightarrow> error + int list" where
  "np_put arr positions vals =
     (if length vals \<noteq> length positions \<and> length vals \<noteq> 1 then Inl ValueError
      else if list_ex (\<lambda>p. \<not> np_in_bounds (length arr) p) positions then Inl IndexError
      else Inr (fold (\<lambda>(p, v) a. a[np_norm (length arr) p := v])
                  (zip positions
                     (if length vals = length positions then vals
                      else replicate (length positions) (hd vals)))
                  arr))"

subsection \<open>The feature encoder: \<open>convert_example_to_features\<close>\<close>

text \<open>
  One record of \<open>epoch_<i>.json\<close>, a dictionary with the keys \<open>tokens\<close>,
  \<open>segment_ids\<close>, \<open>is_random_next\<close>, \<open>masked_lm_positions\<close> and \<open>masked_lm_labels\<close>.
  The fields carry the prefix \<open>ex_\<close> because \<open>segment_ids\<close> is also a field of the
  result.
\<close>

record raw_example =
  ex_tokens :: "string list"
  ex_segment_ids :: "int list"
  ex_is_random_next :: bool
  ex_masked_lm_positions :: "int list"
  ex_masked_lm_labels :: "string list"

text \<open>The named tuple \<open>InputFeatures\<close>; arrays of dtype bool are \<open>bool list\<close>.\<close>

record InputFeatures =
  input_ids :: "int list"
  input_mask :: "bool list"
  segment_ids :: "bool list"
  lm_label_ids :: "int list"
  is_next :: bool

text \<open>Lines 73 to 76: an overlong token list is cut to its first \<open>max_seq_length\<close> tokens.\<close>

definition truncate_tokens :: "string list \<Rightarrow> nat \<Rightarrow> string list" where
  "truncate_tokens toks max_seq_length =
     (if length toks > max_seq_length then take max_seq_length toks else toks)"

text \<open>
  Lines 78 to 80: when the (possibly cut) token list and the segment ids differ in
  length, the segment ids are replaced by zeros.
\<close>

definition recover_segment_ids :: "string list \<Rightarrow> int list \<Rightarrow> int list" where
  "recover_segment_ids toks segs =
     (if length toks \<noteq> length segs then replicate (length toks) 0 else segs)"

text \<open>
  The tokenizer is injected: \<open>tok\<close> maps a token to its id and
  \<open>convert_tokens_to_ids\<close> maps it over a list.
\<close>

definition convert_example_to_features ::
  "(string \<Rightarrow> int) \<Rightarrow> raw_example \<Rightarrow> nat \<Rightarrow> error + InputFeatures" where
  "convert_example_to_features tok example max_seq_length =
     (let toks = truncate_tokens (ex_tokens example) max_seq_length;
          segs = recover_segment_ids toks (ex_segment_ids example)
      in if \<not> (length toks = length segs \<and> length segs \<le> max_seq_length)
         then Inl AssertionError
         else
           let ids = map tok toks;
               masked_label_ids = map tok (ex_masked_lm_labels example)
           in (case np_set_prefix (replicate max_seq_length 0) ids of
                Inl e \<Rightarrow> Inl e
              | Inr input_array \<Rightarrow>
                 let mask_array = np_fill_prefix (replicate max_seq_length False) (length ids) True
                 in (case np_set_prefix (replicate max_seq_length False)
                            (map (\<lambda>s. s \<noteq> 0) segs) of
                       Inl e \<Rightarrow> Inl e
                     | Inr segment_array \<Rightarrow>
                        (case np_put (replicate max_seq_length (- 1))
                                (ex_masked_lm_positions example) masked_label_ids of
                           Inl e \<Rightarrow> Inl e
                         | Inr lm_label_array \<Rightarrow>
                             Inr \<lparr> input_ids = input_array,
                                   input_mask = mask_array,
                                   segment_ids = segment_array,
                                   lm_label_ids = lm_label_array,
                                   is_next = ex_is_random_next example \<rparr>))))"

subsection \<open>The distillation loss engine (lines 362 to 396 of \<open>main\<close>)\<close>

text \<open>
  The two networks are black boxes. A tensor is the list of its entries (teacher and
  student tensors that are compared have the same shape), and a batch carries what the
  loop reads of it: its first dimension and the attention and representation tensors
  the student and the teacher return on it.
\<close>

type_synonym tensor = "real list"

record batch =
  batch_size :: nat
  student_atts :: "tensor list"
  student_reps :: "tensor list"
  teacher_atts :: "tensor list"
  teacher_reps :: "tensor list"

text \<open>Python's \<open>xs[i]\<close> on a list: a negative index counts from the end.\<close>

definition py_index :: "'a list \<Rightarrow> int \<Rightarrow> error + 'a" where
  "py_index xs i =
     (if 0 \<le> i \<and> i < int (length xs) then Inr (xs ! nat i)
      else if i < 0 \<and> - int (length xs) \<le> i then Inr (xs ! nat (int (length xs) + i))
      else Inl IndexError)"

text \<open>A list comprehension whose element expression may raise: the first error ends it.\<close>

fun collect :: "(error + 'a) list \<Rightarrow> error + 'a list" where
  "collect [] = Inr []"
| "collect (Inl e # rs) = Inl e"
| "collect (Inr x # rs) = (case collect rs of Inl e \<Rightarrow> Inl e | Inr xs \<Rightarrow> Inr (x # xs))"

text \<open>
  The teacher layer aligned with student layer \<open>i\<close>: the last attention layer of block
  \<open>i\<close> (line 376) and the first representation of block \<open>i\<close> (line 389).
\<close>

definition att_layer_index :: "nat \<Rightarrow> nat \<Rightarrow> int" where
  "att_layer_index layers_per_block i = int i * int layers_per_block + int layers_per_block - 1"

definition rep_layer_index :: "nat \<Rightarrow> nat \<Rightarrow> int" where
  "rep_layer_index layers_per_block i = int i * int layers_per_block"

definition new_teacher_atts :: "tensor list \<Rightarrow> nat \<Rightarrow> nat \<Rightarrow> error + tensor list" where
  "new_teacher_atts t_atts student_layer_num layers_per_block =
     collect (map (\<lambda>i. py_index t_atts (att_layer_index layers_per_block i))
                [0..<student_layer_num])"

definition new_teacher_reps :: "tensor list \<Rightarrow> nat \<Rightarrow> nat \<Rightarrow> error + tensor list" where
  "new_teacher_reps t_reps student_layer_num layers_per_block =
     collect (map (\<lambda>i. py_index t_reps (rep_layer_index layers_per_block i))
                [0..<student_layer_num + 1])"

text \<open>
  \<open>torch.where(att <= -1e2, zeros_like(att), att)\<close>, entry by entry, and
  \<open>MSELoss()\<close>: the mean of the squared differences. On two tensors of the same
  shape with at least one entry \<open>loss_mse\<close> is torch's value in exact arithmetic.
  Outside them torch broadcasts, raises RuntimeError or returns nan (for tensors without
  entries), and \<open>loss_mse\<close> does not follow it: what is proved of its value below is
  proved for tensors of equal length.
\<close>

definition zero_padding :: "real \<Rightarrow> real" where
  "zero_padding x = (if x \<le> - 100 then 0 else x)"

definition squared_errors :: "tensor \<Rightarrow> tensor \<Rightarrow> real list" where
  "squared_errors s t = map (\<lambda>(a, b). (a - b)\<^sup>2) (zip s t)"

definition loss_mse :: "tensor \<Rightarrow> tensor \<Rightarrow> real" where
  "loss_mse s t = sum_list (squared_errors s t) / real (length s)"

text \<open>The two accumulation loops over the aligned pairs (lines 379 to 394).\<close>

definition att_loss_of :: "(tensor \<times> tensor) list \<Rightarrow> real" where
  "att_loss_of pairs =
     fold (\<lambda>(student_att, teacher_att) att_loss.
             att_loss + loss_mse (map zero_padding student_att) (map zero_padding teacher_att))
       pairs 0"

definition rep_loss_of :: "(tensor \<times> tensor) list \<Rightarrow> real" where
  "rep_loss_of pairs =
     fold (\<lambda>(student_rep, teacher_rep) rep_loss. rep_loss + loss_mse student_rep teacher_rep)
       pairs 0"

text \<open>
  The loss of one batch, as the pair \<open>(att_loss.item(), rep_loss.item())\<close> that lines
  410 and 411 read. \<open>%\<close> by zero raises ZeroDivisionError, the assertion of line 373
  raises AssertionError, and \<open>int(teacher_layer_num / student_layer_num)\<close> is the
  exact quotient once the assertion has passed. A loss whose loop runs over no pair is
  still the Python float \<open>0.\<close> of lines 362 and 363, which has no \<open>item\<close>:
  AttributeError.
\<close>

definition distill_loss :: "batch \<Rightarrow> error + (real \<times> real)" where
  "distill_loss b =
     (let teacher_layer_num = length (teacher_atts b);
          student_layer_num = length (student_atts b)
      in if student_layer_num = 0 then Inl ZeroDivisionError
         else if teacher_layer_num mod student_layer_num \<noteq> 0 then Inl AssertionError
         else
           let layers_per_block = teacher_layer_num div student_layer_num
           in (case new_teacher_atts (teacher_atts b) student_layer_num layers_per_block of
                 Inl e \<Rightarrow> Inl e
               | Inr t_atts \<Rightarrow>
                  (case new_teacher_reps (teacher_reps b) student_layer_num layers_per_block of
                     Inl e \<Rightarrow> Inl e
                   | Inr t_reps \<Rightarrow>
                       if zip (student_atts b) t_atts = [] \<or> zip (student_reps b) t_reps = []
                       then Inl AttributeError
                       else Inr (att_loss_of (zip (student_atts b) t_atts),
                                 rep_loss_of (zip (student_reps b) t_reps)))))"

subsection \<open>The pregenerated epochs (lines 204 to 223 of \<open>main\<close>, \<open>PregeneratedDataset\<close>)\<close>

text \<open>
  One epoch on disk: the two fields of \<open>epoch_<i>_metrics.json\<close> and the records of
  \<open>epoch_<i>.json\<close>, one per line.
\<close>

record shard =
  num_training_examples :: nat
  max_seq_len :: nat
  shard_lines :: "raw_example list"

text \<open>
  The corpus directory is a function \<open>fs\<close>: \<open>fs i = Some sh\<close> when both
  \<open>epoch_<i>.json\<close> and \<open>epoch_<i>_metrics.json\<close> are files, and \<open>fs i = None\<close>
  otherwise.

  The loop of lines 207 to 223 is \<open>load_data fs E i samples\<close>, started at \<open>i = 0\<close>
  with no samples; \<open>E\<close> is \<open>int(args.num_train_epochs)\<close>. It returns
  \<open>(samples_per_epoch, num_data_epochs)\<close>, or ends the process when epoch 0 is missing.
  When no file is missing the source sets \<open>num_data_epochs\<close> to
  \<open>args.num_train_epochs\<close> itself, a float at least \<open>E\<close>; for every epoch below \<open>E\<close>
  the remainder by it is the remainder by \<open>E\<close>.
\<close>

function load_data ::
  "(nat \<Rightarrow> shard option) \<Rightarrow> nat \<Rightarrow> nat \<Rightarrow> nat list \<Rightarrow> error + (nat list \<times> nat)" where
  "load_data fs E i samples_per_epoch =
     (if i < E then
        (case fs i of
           Some sh \<Rightarrow> load_data fs E (Suc i) (samples_per_epoch @ [num_training_examples sh])
         | None \<Rightarrow> if i = 0 then Inl SystemExit else Inr (samples_per_epoch, i))
      else Inr (samples_per_epoch, E))"
  by pat_completeness auto
termination
  by (relation "measure (\<lambda>(fs, E, i, samples). E - i)") auto

text \<open>
  The constructor \<open>PregeneratedDataset.__init__\<close> in two parts. The first, lines 113 to
  124, finds the shard that backs the logical epoch and asserts that its files exist.
\<close>

definition PregeneratedDataset_init :: "(nat \<Rightarrow> shard option) \<Rightarrow> nat \<Rightarrow> nat \<Rightarrow> error + nat" where
  "PregeneratedDataset_init fs epoch num_data_epochs =
     (if num_data_epochs = 0 then Inl ZeroDivisionError
      else
        let data_epoch = epoch mod num_data_epochs
        in if fs data_epoch = None then Inl AssertionError else Inr data_epoch)"

text \<open>
  The second part, lines 125 to 172, fills the arrays. They are allocated with
  \<open>num_samples\<close> rows of \<open>seq_len\<close> cells (zeros, and \<open>-1\<close> for the labels; both
  branches of line 130 allocate the same values), and row \<open>i\<close> receives the features of
  line \<open>i\<close> of the file. A line the encoder fails on ends the load with the encoder's
  error, and a line beyond the last row with IndexError; fewer lines than rows are
  accepted, the check of line 164 being a comment. A row is kept as the features it
  holds.
\<close>

definition empty_row :: "nat \<Rightarrow> InputFeatures" where
  "empty_row seq_len =
     \<lparr> input_ids = replicate seq_len 0,
       input_mask = replicate seq_len False,
       segment_ids = replicate seq_len False,
       lm_label_ids = replicate seq_len (- 1),
       is_next = False \<rparr>"

fun load_examples ::
  "(string \<Rightarrow> int) \<Rightarrow> nat \<Rightarrow> nat \<Rightarrow> raw_example list \<Rightarrow> InputFeatures list \<Rightarrow>
     error + InputFeatures list" where
  "load_examples tok seq_len i [] rows = Inr rows"
| "load_examples tok seq_len i (example # lines) rows =
     (case convert_example_to_features tok example seq_len of
        Inl e \<Rightarrow> Inl e
      | Inr features \<Rightarrow>
          if i < length rows then load_examples tok seq_len (Suc i) lines (rows[i := features])
          else Inl IndexError)"

record dataset =
  ds_data_epoch :: nat
  ds_num_samples :: nat
  ds_seq_len :: nat
  ds_rows :: "InputFeatures list"

definition PregeneratedDataset ::
  "(string \<Rightarrow> int) \<Rightarrow> (nat \<Rightarrow> shard option) \<Rightarrow> nat \<Rightarrow> nat \<Rightarrow> error + dataset" where
  "PregeneratedDataset tok fs epoch num_data_epochs =
     (case PregeneratedDataset_init fs epoch num_data_epochs of
        Inl e \<Rightarrow> Inl e
      | Inr data_epoch \<Rightarrow>
         (case fs data_epoch of
            None \<Rightarrow> Inl AssertionError
          | Some sh \<Rightarrow>
             (case load_examples tok (max_seq_len sh) 0 (shard_lines sh)
                     (replicate (num_training_examples sh) (empty_row (max_seq_len sh))) of
                Inl e \<Rightarrow> Inl e
              | Inr rows \<Rightarrow>
                  Inr \<lparr> ds_data_epoch = data_epoch,
                        ds_num_samples = num_training_examples sh,
                        ds_seq_len = max_seq_len sh,
                        ds_rows = rows \<rparr>)))"

subsection \<open>The training loop (lines 246 to 509 of \<open>main\<close>)\<close>

text \<open>
  The command line, as far as the loop reads it. \<open>num_train_epochs\<close> is
  \<open>int(args.num_train_epochs)\<close> and \<open>local_rank\<close> the environment's \<open>LOCAL_RANK\<close>.
\<close>

record args =
  num_train_epochs :: nat
  train_batch_size :: int
  gradient_accumulation_steps :: int
  eval_step :: int
  attn_scale :: real
  rep_scale :: real
  local_rank :: int

text \<open>Line 250: the batch size of one device, the local \<open>train_batch_size\<close> of \<open>main\<close>.\<close>

definition per_device_batch_size :: "args \<Rightarrow> int" where
  "per_device_batch_size a = train_batch_size a div gradient_accumulation_steps a"

text \<open>
  The scalar fields of \<open>resume_checkpoint.pt\<close>; the three state dictionaries it also
  holds belong to the networks and the optimizer and are not modelled.
\<close>

record snapshot =
  snap_ep_step :: nat
  snap_epoch :: nat
  snap_global_step :: nat

text \<open>The dictionary \<open>result\<close> of lines 459 to 463.\<close>

record eval_result =
  res_global_step :: nat
  res_loss :: real
  res_att_loss :: real
  res_rep_loss :: real

datatype log_dir = ModelDir | CheckpointDir

text \<open>
  What the loop does to the outside, in the order it does it: the forward passes and
  the loss of a batch, the backward pass, the optimizer, the files written and the
  records logged.
\<close>

datatype event =
    Forward nat nat
  | Backward nat nat
  | OptimizerStep
  | ZeroGrad
  | SaveModel nat
  | SaveCheckpoint snapshot
  | TrackerLog eval_result
  | AppendLog log_dir eval_result
  | SaveFinalModel

record train_state =
  global_step :: nat
  tr_loss :: real
  tr_att_loss :: real
  tr_rep_loss :: real
  nb_tr_examples :: nat
  nb_tr_steps :: nat
  resume_checkpoint :: "snapshot option"
  trace :: "event list"

definition emit :: "event list \<Rightarrow> train_state \<Rightarrow> train_state" where
  "emit es s = s\<lparr>trace := trace s @ es\<rparr>"

text \<open>Lines 410 to 415: the running sums and counters of the epoch.\<close>

definition accumulate :: "args \<Rightarrow> batch \<Rightarrow> real \<Rightarrow> real \<Rightarrow> train_state \<Rightarrow> train_state" where
  "accumulate a b att_loss rep_loss s =
     (let loss = attn_scale a * att_loss + rep_scale a * rep_loss;
          loss = (if gradient_accumulation_steps a > 1
                  then loss / real_of_int (gradient_accumulation_steps a) else loss)
      in s\<lparr>tr_att_loss := tr_att_loss s + att_loss,
            tr_rep_loss := tr_rep_loss s + rep_loss,
            tr_loss := tr_loss s + loss,
            nb_tr_examples := nb_tr_examples s + batch_size b,
            nb_tr_steps := nb_tr_steps s + 1\<rparr>)"

text \<open>Lines 424 to 427.\<close>

definition optimizer_update :: "args \<Rightarrow> nat \<Rightarrow> train_state \<Rightarrow> train_state" where
  "optimizer_update a step s =
     (if (int step + 1) mod gradient_accumulation_steps a = 0
      then (emit [OptimizerStep, ZeroGrad] s)\<lparr>global_step := global_step s + 1\<rparr>
      else s)"

text \<open>Lines 434 to 455: every tenth raw batch the model and the resumable checkpoint.\<close>

definition save_snapshot :: "nat \<Rightarrow> nat \<Rightarrow> train_state \<Rightarrow> train_state" where
  "save_snapshot epoch step s =
     (if step mod 10 = 0 then
        (let snap = \<lparr>snap_ep_step = step, snap_epoch = epoch,
                     snap_global_step = global_step s\<rparr>
         in (emit [SaveModel (global_step s), SaveCheckpoint snap] s)
              \<lparr>resume_checkpoint := Some snap\<rparr>)
      else s)"

text \<open>Lines 418 to 420 and 458 to 481: the record of the running means and its three sinks.\<close>

definition mean_result :: "args \<Rightarrow> train_state \<Rightarrow> eval_result" where
  "mean_result a s =
     \<lparr>res_global_step = global_step s,
      res_loss = tr_loss s * real_of_int (gradient_accumulation_steps a) / real (nb_tr_steps s),
      res_att_loss = tr_att_loss s * real_of_int (gradient_accumulation_steps a) / real (nb_tr_steps s),
      res_rep_loss = tr_rep_loss s * real_of_int (gradient_accumulation_steps a) / real (nb_tr_steps s)\<rparr>"

definition log_eval :: "args \<Rightarrow> train_state \<Rightarrow> error + train_state" where
  "log_eval a s =
     (if eval_step a = 0 then Inl ZeroDivisionError
      else if (int (global_step s) + 1) mod eval_step a = 0
      then Inr (emit [TrackerLog (mean_result a s),
                      AppendLog ModelDir (mean_result a s),
                      AppendLog CheckpointDir (mean_result a s)] s)
      else Inr s)"

text \<open>
  The body of the batch loop (lines 353 to 481) for the batch \<open>b\<close> at index \<open>step\<close>
  of \<open>epoch\<close>; the two \<open>continue\<close> statements return the state as it is.
\<close>

definition train_batch ::
  "args \<Rightarrow> nat \<Rightarrow> nat \<Rightarrow> nat \<Rightarrow> batch \<Rightarrow> train_state \<Rightarrow> error + train_state" where
  "train_batch a ep_step epoch step b s =
     (if step < ep_step then Inr s
      else if int (batch_size b) \<noteq> per_device_batch_size a then Inr s
      else
        (case distill_loss b of
           Inl e \<Rightarrow> Inl e
         | Inr (att_loss, rep_loss) \<Rightarrow>
             let s1 = accumulate a b att_loss rep_loss
                        (emit [Forward epoch step, Backward epoch step] s)
             in if gradient_accumulation_steps a = 0 then Inl ZeroDivisionError
                else
                  let s2 = optimizer_update a step s1
                  in if local_rank a = 0 then log_eval a (save_snapshot epoch step s2)
                     else Inr s2))"

text \<open>\<open>for step, batch in enumerate(train_dataloader)\<close>, from index \<open>step\<close> on.\<close>

fun run_batches ::
  "args \<Rightarrow> nat \<Rightarrow> nat \<Rightarrow> nat \<Rightarrow> batch list \<Rightarrow> train_state \<Rightarrow> error + train_state" where
  "run_batches a ep_step epoch step [] s = Inr s"
| "run_batches a ep_step epoch step (b # bs) s =
     (case train_batch a ep_step epoch step b s of
        Inl e \<Rightarrow> Inl e
      | Inr s' \<Rightarrow> run_batches a ep_step epoch (Suc step) bs s')"

text \<open>
  One epoch (lines 333 to 494): the dataset of the epoch, the sampler and the data
  loader, the batches, and the export at the end. \<open>loader epoch_dataset epoch\<close> is the
  list of batches the data loader yields for the dataset under the sampler of \<open>epoch\<close>.
  \<open>DataLoader\<close> raises ValueError for a batch size that is not positive, and with
  \<open>local_rank = -1\<close> the sampler is a \<open>RandomSampler\<close>, which has no \<open>set_epoch\<close>:
  line 343 raises AttributeError.
\<close>

definition run_epoch ::
  "(string \<Rightarrow> int) \<Rightarrow> args \<Rightarrow> (nat \<Rightarrow> shard option) \<Rightarrow> (dataset \<Rightarrow> nat \<Rightarrow> batch list) \<Rightarrow>
     nat \<Rightarrow> nat \<Rightarrow> nat \<Rightarrow> train_state \<Rightarrow> error + train_state" where
  "run_epoch tok a fs loader num_data_epochs ep_step epoch s =
     (case PregeneratedDataset tok fs epoch num_data_epochs of
        Inl e \<Rightarrow> Inl e
      | Inr epoch_dataset \<Rightarrow>
         if per_device_batch_size a \<le> 0 then Inl ValueError
         else if local_rank a = - 1 then Inl AttributeError
         else
           (case run_batches a ep_step epoch 0 (loader epoch_dataset epoch)
                   (s\<lparr>tr_loss := 0, tr_att_loss := 0, tr_rep_loss := 0,
                      nb_tr_examples := 0, nb_tr_steps := 0\<rparr>) of
              Inl e \<Rightarrow> Inl e
            | Inr s' \<Rightarrow>
                Inr (if local_rank a = 0 then emit [SaveModel (global_step s')] s' else s')))"

text \<open>\<open>for epoch in trange(epochs_run, int(args.num_train_epochs))\<close>.\<close>

fun run_epochs ::
  "(string \<Rightarrow> int) \<Rightarrow> args \<Rightarrow> (nat \<Rightarrow> shard option) \<Rightarrow> (dataset \<Rightarrow> nat \<Rightarrow> batch list) \<Rightarrow>
     nat \<Rightarrow> nat \<Rightarrow> nat list \<Rightarrow> train_state \<Rightarrow> error + train_state" where
  "run_epochs tok a fs loader num_data_epochs ep_step [] s = Inr s"
| "run_epochs tok a fs loader num_data_epochs ep_step (epoch # epochs) s =
     (case run_epoch tok a fs loader num_data_epochs ep_step epoch s of
        Inl e \<Rightarrow> Inl e
      | Inr s' \<Rightarrow> run_epochs tok a fs loader num_data_epochs ep_step epochs s')"

text \<open>
  Lines 304 to 317: the counters at the start, from \<open>resume_checkpoint.pt\<close> when the
  file exists. The result is \<open>(epochs_run, ep_step, global_step)\<close>.
\<close>

definition restore :: "snapshot option \<Rightarrow> nat \<times> nat \<times> nat" where
  "restore snap =
     (case snap of
        None \<Rightarrow> (0, 0, 0)
      | Some sn \<Rightarrow> (snap_epoch sn, snap_ep_step sn, snap_global_step sn))"

text \<open>
  \<open>main\<close>: the data check, the check of line 246, the division by the per-device
  batch size of lines 259 and 260 (its quotient only sets the optimizer's schedule), the
  restored counters, the epochs and the final export. \<open>tok\<close> is the tokenizer loaded
  at line 253 and \<open>snap\<close> the content of the resume path at the start.
\<close>

definition main ::
  "(string \<Rightarrow> int) \<Rightarrow> args \<Rightarrow> (nat \<Rightarrow> shard option) \<Rightarrow> (dataset \<Rightarrow> nat \<Rightarrow> batch list) \<Rightarrow>
     snapshot option \<Rightarrow> error + train_state" where
  "main tok a fs loader snap =
     (case load_data fs (num_train_epochs a) 0 [] of
        Inl e \<Rightarrow> Inl e
      | Inr (samples_per_epoch, num_data_epochs) \<Rightarrow>
          if gradient_accumulation_steps a < 1 then Inl ValueError
          else if per_device_batch_size a = 0 then Inl ZeroDivisionError
          else
            (case restore snap of
               (epochs_run, ep_step, g) \<Rightarrow>
                 (case run_epochs tok a fs loader num_data_epochs ep_step
                         [epochs_run..<num_train_epochs a]
                         \<lparr>global_step = g, tr_loss = 0, tr_att_loss = 0, tr_rep_loss = 0,
                          nb_tr_examples = 0, nb_tr_steps = 0,
                          resume_checkpoint = snap, trace = []\<rparr> of
                    Inl e \<Rightarrow> Inl e
                  | Inr s \<Rightarrow> Inr (if local_rank a = 0 then emit [SaveFinalModel] s else s))))"

text \<open>Readings of a trace and of a result.\<close>

fun forward_steps :: "event list \<Rightarrow> (nat \<times> nat) list" where
  "forward_steps [] = []"
| "forward_steps (Forward epoch step # es) = (epoch, step) # forward_steps es"
| "forward_steps (e # es) = forward_steps es"

fun logged_steps :: "event list \<Rightarrow> nat list" where
  "logged_steps [] = []"
| "logged_steps (TrackerLog r # es) = res_global_step r # logged_steps es"
| "logged_steps (e # es) = logged_steps es"

definition on_result :: "('a \<Rightarrow> 'b) \<Rightarrow> error + 'a \<Rightarrow> error + 'b" where
  "on_result f r = (case r of Inl e \<Rightarrow> Inl e | Inr x \<Rightarrow> Inr (f x))"

text \<open>
  The raw batch indices of an epoch at which lines 424 to 427 run: the batch is not
  skipped by either \<open>continue\<close> and its index closes a group of
  \<open>gradient_accumulation_steps\<close>. \<open>step\<close> is the index of the first batch of \<open>bs\<close>.
\<close>

definition update_steps :: "args \<Rightarrow> nat \<Rightarrow> nat \<Rightarrow> batch list \<Rightarrow> nat list" where
  "update_steps a ep_step step bs =
     filter (\<lambda>k. ep_step \<le> k \<and>
                 int (batch_size (bs ! (k - step))) = per_device_batch_size a \<and>
                 (int k + 1) mod gradient_accumulation_steps a = 0)
       [step..<step + length bs]"

text \<open>
  The optimizer events of a trace, in order.
\<close>

definition updates_of :: "event list \<Rightarrow> event list" where
  "updates_of es = filter (\<lambda>e. e = OptimizerStep \<or> e = ZeroGrad) es"

subsection \<open>Concrete inputs\<close>

text \<open>Three raw examples and a tokenizer that maps a token to its length.\<close>

definition example_short :: raw_example where
  "example_short = \<lparr> ex_tokens = [''[CLS]'', ''guten'', ''[MASK]''],
                      ex_segment_ids = [0, 0, 0],
                      ex_is_random_next = False,
                      ex_masked_lm_positions = [2],
                      ex_masked_lm_labels = [''tag''] \<rparr>"

definition tok_len :: "string \<Rightarrow> int" where
  "tok_len t = int (length t)"


definition example_masked_tail :: raw_example where
  "example_masked_tail = \<lparr> ex_tokens = [''[CLS]'', ''ein'', ''langer'', ''[MASK]''],
                            ex_segment_ids = [0, 0, 0, 0],
                            ex_is_random_next = False,
                            ex_masked_lm_positions = [3],
                            ex_masked_lm_labels = [''satz''] \<rparr>"

text \<open>
  Three examples of three tokens whose masked position is not an index of a token: the
  last cell counted from the end, a cell beyond \<open>max_seq_length = 5\<close>, and that cell
  with two labels for the one position.
\<close>

definition example_negative_position :: raw_example where
  "example_negative_position = \<lparr> ex_tokens = [''[CLS]'', ''guten'', ''[MASK]''],
                                  ex_segment_ids = [0, 0, 0],
                                  ex_is_random_next = False,
                                  ex_masked_lm_positions = [- 1],
                                  ex_masked_lm_labels = [''tag''] \<rparr>"

definition example_far_position :: raw_example where
  "example_far_position = \<lparr> ex_tokens = [''[CLS]'', ''guten'', ''[MASK]''],
                             ex_segment_ids = [0, 0, 0],
                             ex_is_random_next = False,
                             ex_masked_lm_positions = [7],
                             ex_masked_lm_labels = [''tag''] \<rparr>"

definition example_far_two_labels :: raw_example where
  "example_far_two_labels = \<lparr> ex_tokens = [''[CLS]'', ''guten'', ''[MASK]''],
                               ex_segment_ids = [0, 0, 0],
                               ex_is_random_next = False,
                               ex_masked_lm_positions = [7],
                               ex_masked_lm_labels = [''tag'', ''woche''] \<rparr>"

text \<open>
  A batch with a four-layer teacher and a two-layer student; every tensor has one entry.
\<close>

definition batch_4_2 :: batch where
  "batch_4_2 = \<lparr>batch_size = 2,
                 student_atts = [[0], [0]],
                 student_reps = [[0], [0], [0]],
                 teacher_atts = [[1], [2], [3], [4]],
                 teacher_reps = [[0], [1], [2], [3], [4]]\<rparr>"

text \<open>
  Two attention tensors whose first entry is masked: the padding value on the student's
  side, the threshold itself on the teacher's.
\<close>

definition att_padded_student :: tensor where
  "att_padded_student = [- 10000, 1]"

definition att_padded_teacher :: tensor where
  "att_padded_teacher = [- 100, 3]"


text \<open>
  Concrete inputs for the loop. \<open>unit_batch n\<close> is a batch of \<open>n\<close> examples on which
  the one-layer student and teacher return tensors of one entry; its attention loss is 1
  and its representation loss is 4.
\<close>

definition unit_batch :: "nat \<Rightarrow> batch" where
  "unit_batch n = \<lparr>batch_size = n, student_atts = [[0]], student_reps = [[0], [0]],
                   teacher_atts = [[1]], teacher_reps = [[0], [2]]\<rparr>"

text \<open>
  Two devices' worth of accumulation: a total batch size of 4 split into groups of 2, a
  log every 2 global steps, on rank 0.
\<close>

definition args_acc2 :: args where
  "args_acc2 = \<lparr>num_train_epochs = 2, train_batch_size = 4, gradient_accumulation_steps = 2,
                eval_step = 2, attn_scale = 1, rep_scale = 1, local_rank = 0\<rparr>"

definition init_state :: train_state where
  "init_state = \<lparr>global_step = 0, tr_loss = 0, tr_att_loss = 0, tr_rep_loss = 0,
                 nb_tr_examples = 0, nb_tr_steps = 0, resume_checkpoint = None, trace = []\<rparr>"

text \<open>
  Seven examples in batches of two: the fourth batch holds one example. Ten examples in
  batches of two: five full batches.
\<close>

definition batches_7_by_2 :: "batch list" where
  "batches_7_by_2 = [unit_batch 2, unit_batch 2, unit_batch 2, unit_batch 1]"

definition batches_10_by_2 :: "batch list" where
  "batches_10_by_2 = [unit_batch 2, unit_batch 2, unit_batch 2, unit_batch 2, unit_batch 2]"

text \<open>
  A resumed run: two epochs of twelve full batches each over shards of 24 examples, no
  accumulation, and the checkpoint the loop itself writes at step 10 of epoch 0 (after
  the eleventh optimizer step).
\<close>

definition args_resume :: args where
  "args_resume = \<lparr>num_train_epochs = 2, train_batch_size = 2, gradient_accumulation_steps = 1,
                  eval_step = 1000, attn_scale = 1, rep_scale = 1, local_rank = 0\<rparr>"

definition snapshot_0_10 :: snapshot where
  "snapshot_0_10 = \<lparr>snap_ep_step = 10, snap_epoch = 0, snap_global_step = 11\<rparr>"

definition loader_12 :: "dataset \<Rightarrow> nat \<Rightarrow> batch list" where
  "loader_12 epoch_dataset epoch = replicate 12 (unit_batch 2)"

definition shards_24 :: "nat \<Rightarrow> shard option" where
  "shards_24 i =
     (if i < 2 then Some \<lparr>num_training_examples = 24, max_seq_len = 5,
                          shard_lines = replicate 24 example_short\<rparr>
      else None)"

section \<open>Properties\<close>

subsection \<open>The feature encoder\<close>

lemma length_truncate_tokens: "length (truncate_tokens toks m) = min (length toks) m"
  by (simp add: truncate_tokens_def)

lemma fold_put_length:
  "length (fold (\<lambda>(p, v) a. a[g p := v]) ps arr) = length arr"
  by (induction ps arbitrary: arr) (auto split: prod.splits)

lemma fold_put_unchanged:
  "\<forall>q\<in>set ps. g (fst q) \<noteq> j \<Longrightarrow> fold (\<lambda>(p, v) a. a[g p := v]) ps arr ! j = arr ! j"
  by (induction ps arbitrary: arr) (auto split: prod.splits)

lemma np_norm_eq:
  "np_in_bounds n p \<Longrightarrow> j < n \<Longrightarrow> np_norm n p = j \<longleftrightarrow> (p = int j \<or> p = int j - int n)"
  by (auto simp: np_in_bounds_def np_norm_def)

lemma np_put_Inr:
  "(\<exists>a. np_put arr ps vs = Inr a) \<longleftrightarrow>
     (list_all (np_in_bounds (length arr)) ps \<and> (length vs = length ps \<or> length vs = 1))"
  by (auto simp: np_put_def list_ex_iff list_all_iff)

lemma np_put_length: "np_put arr ps vs = Inr a \<Longrightarrow> length a = length arr"
  by (auto simp: np_put_def fold_put_length split: if_splits)

lemma np_put_unlisted:
  assumes "np_put arr ps vs = Inr a" "j < length arr"
    "int j \<notin> set ps" "int j - int (length arr) \<notin> set ps"
  shows "a ! j = arr ! j"
proof -
  from assms(1) have inb: "\<forall>p\<in>set ps. np_in_bounds (length arr) p"
    by (auto simp: np_put_def list_ex_iff split: if_splits)
  have "\<forall>p\<in>set ps. np_norm (length arr) p \<noteq> j"
  proof
    fix p assume "p \<in> set ps"
    with inb assms(2-4) show "np_norm (length arr) p \<noteq> j"
      using np_norm_eq[of "length arr" p j] by auto
  qed
  then have "\<forall>q\<in>set (zip ps zs). np_norm (length arr) (fst q) \<noteq> j" for zs
    by (auto dest: set_zip_leftD)
  then have unchanged:
    "fold (\<lambda>(p, v) a. a[np_norm (length arr) p := v]) (zip ps zs) arr ! j = arr ! j" for zs
    by (rule fold_put_unchanged)
  from assms(1) obtain zs where
    "a = fold (\<lambda>(p, v) a. a[np_norm (length arr) p := v]) (zip ps zs) arr"
    by (auto simp: np_put_def split: if_splits)
  with unchanged show ?thesis by simp
qed

lemma convert_example_to_features_eq:
  "convert_example_to_features tok example m =
     (let toks = truncate_tokens (ex_tokens example) m;
          segs = recover_segment_ids toks (ex_segment_ids example)
      in case np_put (replicate m (- 1)) (ex_masked_lm_positions example)
                (map tok (ex_masked_lm_labels example)) of
           Inl e \<Rightarrow> Inl e
         | Inr lab \<Rightarrow>
             Inr \<lparr> input_ids = map tok toks @ replicate (m - length toks) 0,
                   input_mask = replicate (length toks) True @ replicate (m - length toks) False,
                   segment_ids = map (\<lambda>s. s \<noteq> 0) segs @ replicate (m - length toks) False,
                   lm_label_ids = lab,
                   is_next = ex_is_random_next example \<rparr>)"
proof -
  let ?toks = "truncate_tokens (ex_tokens example) m"
  let ?segs = "recover_segment_ids ?toks (ex_segment_ids example)"
  have l1: "length ?toks \<le> m" by (simp add: length_truncate_tokens)
  have l2: "length ?segs = length ?toks" by (simp add: recover_segment_ids_def)
  show ?thesis
    using l1 l2
    by (simp add: convert_example_to_features_def Let_def np_set_prefix_def np_fill_prefix_def
        split: sum.splits)
qed

lemma convert_returns_iff:
  "(\<exists>f. convert_example_to_features tok example m = Inr f) \<longleftrightarrow>
     (list_all (np_in_bounds m) (ex_masked_lm_positions example) \<and>
      (length (ex_masked_lm_labels example) = length (ex_masked_lm_positions example) \<or>
       length (ex_masked_lm_labels example) = 1))"
proof -
  have "(\<exists>f. convert_example_to_features tok example m = Inr f) \<longleftrightarrow>
        (\<exists>a. np_put (replicate m (- 1)) (ex_masked_lm_positions example)
                (map tok (ex_masked_lm_labels example)) = Inr a)"
    by (simp add: convert_example_to_features_eq Let_def split: sum.splits)
  then show ?thesis by (simp add: np_put_Inr)
qed

text \<open>
  Claim C4, as amended. For a raw example with at most \<open>max_seq_length\<close> tokens,
  \<open>convert_example_to_features\<close> returns features exactly when every masked position
  \<open>p\<close> is within the bounds of the label array (\<open>- max_seq_length \<le> p < max_seq_length\<close>)
  and the labels are as many as the positions or a single one. What it returns has its
  four arrays of length exactly \<open>max_seq_length\<close>, a mask that is 1 on the first
  \<open>len(tokens)\<close> cells and 0 on the rest, and the label \<open>-1\<close> in every cell that no
  entry of \<open>masked_lm_positions\<close> addresses: a cell \<open>j\<close> is addressed by the entry
  \<open>j\<close> and, as numpy counts negative indices from the end, by the entry
  \<open>j - max_seq_length\<close>.
\<close>

theorem encode_pads_to_max_seq_length:
  assumes "length (ex_tokens example) \<le> max_seq_length"
  shows "((\<exists>f. convert_example_to_features tok example max_seq_length = Inr f) \<longleftrightarrow>
           (list_all (np_in_bounds max_seq_length) (ex_masked_lm_positions example) \<and>
            (length (ex_masked_lm_labels example) = length (ex_masked_lm_positions example) \<or>
             length (ex_masked_lm_labels example) = 1))) \<and>
         (\<forall>f. convert_example_to_features tok example max_seq_length = Inr f \<longrightarrow>
            length (input_ids f) = max_seq_length \<and>
            length (input_mask f) = max_seq_length \<and>
            length (segment_ids f) = max_seq_length \<and>
            length (lm_label_ids f) = max_seq_length \<and>
            input_mask f = replicate (length (ex_tokens example)) True @
                           replicate (max_seq_length - length (ex_tokens example)) False \<and>
            (\<forall>j<max_seq_length.
               int j \<notin> set (ex_masked_lm_positions example) \<and>
               int j - int max_seq_length \<notin> set (ex_masked_lm_positions example) \<longrightarrow>
               lm_label_ids f ! j = - 1))"
proof (intro conjI allI impI)
  show "(\<exists>f. convert_example_to_features tok example max_seq_length = Inr f) \<longleftrightarrow>
           (list_all (np_in_bounds max_seq_length) (ex_masked_lm_positions example) \<and>
            (length (ex_masked_lm_labels example) = length (ex_masked_lm_positions example) \<or>
             length (ex_masked_lm_labels example) = 1))"
    by (rule convert_returns_iff)
next
  fix f
  assume r: "convert_example_to_features tok example max_seq_length = Inr f"
  let ?toks = "truncate_tokens (ex_tokens example) max_seq_length"
  let ?segs = "recover_segment_ids ?toks (ex_segment_ids example)"
  have toks: "?toks = ex_tokens example"
    using assms by (simp add: truncate_tokens_def)
  have segs: "length ?segs = length ?toks"
    by (simp add: recover_segment_ids_def)
  from r obtain lab where
    put: "np_put (replicate max_seq_length (- 1)) (ex_masked_lm_positions example)
            (map tok (ex_masked_lm_labels example)) = Inr lab"
    and f: "f = \<lparr> input_ids = map tok ?toks @ replicate (max_seq_length - length ?toks) 0,
                  input_mask = replicate (length ?toks) True @
                               replicate (max_seq_length - length ?toks) False,
                  segment_ids = map (\<lambda>s. s \<noteq> 0) ?segs @
                                replicate (max_seq_length - length ?toks) False,
                  lm_label_ids = lab,
                  is_next = ex_is_random_next example \<rparr>"
    by (auto simp: convert_example_to_features_eq Let_def split: sum.splits)
  show "length (input_ids f) = max_seq_length"
    using assms by (simp add: f toks)
  show "length (input_mask f) = max_seq_length"
    using assms by (simp add: f toks)
  show "length (segment_ids f) = max_seq_length"
    using assms segs by (simp add: f toks)
  show "length (lm_label_ids f) = max_seq_length"
    using np_put_length[OF put] by (simp add: f)
  show "input_mask f = replicate (length (ex_tokens example)) True @
                       replicate (max_seq_length - length (ex_tokens example)) False"
    by (simp add: f toks)
  fix j
  assume "j < max_seq_length"
    and "int j \<notin> set (ex_masked_lm_positions example) \<and>
         int j - int max_seq_length \<notin> set (ex_masked_lm_positions example)"
  then show "lm_label_ids f ! j = - 1"
    using np_put_unlisted[OF put, of j] by (simp add: f)
qed

text \<open>
  The theorem at a three-token example padded to five cells.
\<close>

theorem encode_pads_to_max_seq_length_witness:
  "length (ex_tokens example_short) \<le> 5 \<and>
   (\<exists>f. convert_example_to_features tok_len example_short 5 = Inr f \<and>
        length (input_ids f) = 5 \<and> length (lm_label_ids f) = 5 \<and>
        input_mask f = [True, True, True, False, False] \<and>
        lm_label_ids f ! 0 = - 1 \<and> lm_label_ids f ! 4 = - 1)"
proof -
  have h: "length (ex_tokens example_short) \<le> 5"
    by (simp add: example_short_def)
  note t = encode_pads_to_max_seq_length[OF h, of tok_len]
  have "list_all (np_in_bounds 5) (ex_masked_lm_positions example_short) \<and>
        (length (ex_masked_lm_labels example_short) = length (ex_masked_lm_positions example_short) \<or>
         length (ex_masked_lm_labels example_short) = 1)"
    by (simp add: example_short_def np_in_bounds_def)
  with t obtain f where r: "convert_example_to_features tok_len example_short 5 = Inr f"
    by blast
  from t r have p: "length (input_ids f) = 5" "length (lm_label_ids f) = 5"
    "input_mask f = replicate (length (ex_tokens example_short)) True @
                    replicate (5 - length (ex_tokens example_short)) False"
    "\<forall>j<5. int j \<notin> set (ex_masked_lm_positions example_short) \<and>
        int j - int 5 \<notin> set (ex_masked_lm_positions example_short) \<longrightarrow>
        lm_label_ids f ! j = - 1"
    by blast+
  from p(3) have m: "input_mask f = [True, True, True, False, False]"
    by (simp add: example_short_def numeral_eq_Suc)
  from p(4) have "lm_label_ids f ! 0 = - 1" "lm_label_ids f ! 4 = - 1"
    by (simp_all add: example_short_def)
  with h r p(1,2) m show ?thesis by blast
qed

text \<open>
  Claim C4 as stated fails on two examples of three tokens with \<open>max_seq_length = 5\<close>.
  With the masked position \<open>-1\<close> the label of \<open>tag\<close> is written to cell 4, which the
  list of masked positions does not contain; with the masked position 7 the call ends in
  IndexError and returns no arrays.
\<close>

theorem encode_pads_to_max_seq_length_counterexample:
  "length (ex_tokens example_negative_position) \<le> 5 \<and>
   int 4 \<notin> set (ex_masked_lm_positions example_negative_position) \<and>
   on_result (\<lambda>f. lm_label_ids f ! 4)
     (convert_example_to_features tok_len example_negative_position 5) = Inr 3 \<and>
   (3::int) \<noteq> - 1 \<and>
   length (ex_tokens example_far_position) \<le> 5 \<and>
   convert_example_to_features tok_len example_far_position 5 = Inl IndexError"
  by (simp add: convert_example_to_features_eq Let_def np_put_def np_in_bounds_def np_norm_def
      truncate_tokens_def recover_segment_ids_def on_result_def tok_len_def
      example_negative_position_def example_far_position_def)



text \<open>
  Claim C10, as amended. Masked positions are neither cut nor checked: an example with
  a masked position at or beyond \<open>max_seq_length\<close> never yields features, whatever its
  tokens and segment ids are. The write
  \<open>lm_label_array[masked_lm_positions] = masked_label_ids\<close> fails with IndexError when
  there is one label per position or a single label, and with the ValueError of the
  shape mismatch otherwise.
\<close>

theorem encode_masked_position_out_of_bounds:
  assumes "p \<in> set (ex_masked_lm_positions example)" and "int max_seq_length \<le> p"
  shows "(\<forall>f. convert_example_to_features tok example max_seq_length \<noteq> Inr f) \<and>
         convert_example_to_features tok example max_seq_length =
           Inl (if length (ex_masked_lm_labels example) = length (ex_masked_lm_positions example) \<or>
                   length (ex_masked_lm_labels example) = 1
                then IndexError else ValueError)"
proof -
  have "\<not> np_in_bounds max_seq_length p"
    using assms(2) by (simp add: np_in_bounds_def)
  with assms(1) have ex:
    "list_ex (\<lambda>p. \<not> np_in_bounds max_seq_length p) (ex_masked_lm_positions example)"
    by (auto simp: list_ex_iff)
  then have e: "convert_example_to_features tok example max_seq_length =
           Inl (if length (ex_masked_lm_labels example) = length (ex_masked_lm_positions example) \<or>
                   length (ex_masked_lm_labels example) = 1
                then IndexError else ValueError)"
    by (auto simp: convert_example_to_features_eq Let_def np_put_def)
  then have "\<forall>f. convert_example_to_features tok example max_seq_length \<noteq> Inr f"
    by simp
  with e show ?thesis by blast
qed

text \<open>
  The theorem at an example whose tokens are cut to three while its masked position 3
  stays, and at the example with two labels for the position 7.
\<close>

theorem encode_masked_position_out_of_bounds_witness:
  "3 \<in> set (ex_masked_lm_positions example_masked_tail) \<and> int 3 \<le> 3 \<and>
   convert_example_to_features tok_len example_masked_tail 3 = Inl IndexError \<and>
   7 \<in> set (ex_masked_lm_positions example_far_two_labels) \<and> int 5 \<le> 7 \<and>
   convert_example_to_features tok_len example_far_two_labels 5 = Inl ValueError"
proof -
  have h1: "3 \<in> set (ex_masked_lm_positions example_masked_tail)"
    by (simp add: example_masked_tail_def)
  have h2: "int 3 \<le> 3" by simp
  have h3: "length (ex_masked_lm_labels example_masked_tail) =
            length (ex_masked_lm_positions example_masked_tail)"
    by (simp add: example_masked_tail_def)
  from encode_masked_position_out_of_bounds[OF h1 h2, of tok_len] h3
  have a: "convert_example_to_features tok_len example_masked_tail 3 = Inl IndexError"
    by simp
  have k1: "7 \<in> set (ex_masked_lm_positions example_far_two_labels)"
    by (simp add: example_far_two_labels_def)
  have k2: "int 5 \<le> 7" by simp
  have k3: "\<not> (length (ex_masked_lm_labels example_far_two_labels) =
               length (ex_masked_lm_positions example_far_two_labels) \<or>
               length (ex_masked_lm_labels example_far_two_labels) = 1)"
    by (simp add: example_far_two_labels_def)
  from encode_masked_position_out_of_bounds[OF k1 k2, of tok_len] k3
  have b: "convert_example_to_features tok_len example_far_two_labels 5 = Inl ValueError"
    by simp
  from h1 h2 a k1 k2 b show ?thesis by blast
qed

text \<open>
  Claim C10 as stated fails on the kind of the error: with two labels for the single
  masked position 7 and \<open>max_seq_length = 5\<close> the write fails on the shapes, with
  ValueError, before any index is checked.
\<close>

theorem encode_masked_position_out_of_bounds_counterexample:
  "7 \<in> set (ex_masked_lm_positions example_far_two_labels) \<and> int 5 \<le> 7 \<and>
   convert_example_to_features tok_len example_far_two_labels 5 = Inl ValueError \<and>
   convert_example_to_features tok_len example_far_two_labels 5 \<noteq> Inl IndexError"
  by (simp add: convert_example_to_features_eq Let_def np_put_def
      example_far_two_labels_def)

subsection \<open>The distillation loss engine\<close>

lemma collect_map_Inr:
  "(\<And>x. x \<in> set xs \<Longrightarrow> f x = Inr (g x)) \<Longrightarrow> collect (map f xs) = Inr (map g xs)"
  by (induction xs) auto

lemma zip_map_upt:
  "length xs = n \<Longrightarrow> zip xs (map g [0..<n]) = map (\<lambda>i. (xs ! i, g i)) [0..<n]"
  by (rule nth_equalityI) auto

lemma py_index_nat: "i < length xs \<Longrightarrow> py_index xs (int i) = Inr (xs ! i)"
  by (simp add: py_index_def)

lemma att_layer_index_nat:
  "0 < lpb \<Longrightarrow> att_layer_index lpb i = int (i * lpb + lpb - 1)"
  by (cases lpb) (simp_all add: att_layer_index_def algebra_simps)

lemma block_index_bound:
  assumes "0 < S" "T mod S = 0" "i < S"
  shows "i * (T div S) + T div S \<le> (T::nat)"
proof -
  have "Suc i * (T div S) \<le> S * (T div S)"
    using assms(3) by (intro mult_le_mono1) simp
  also have "\<dots> = T" using assms(2) by auto
  finally show ?thesis by (simp add: algebra_simps)
qed

lemma new_teacher_atts_aligned:
  assumes "0 < S" "0 < length t_atts" "length t_atts mod S = 0"
  shows "new_teacher_atts t_atts S (length t_atts div S) =
           Inr (map (\<lambda>i. t_atts ! (i * (length t_atts div S) + length t_atts div S - 1)) [0..<S])"
proof -
  let ?T = "length t_atts"
  let ?l = "?T div S"
  have l: "0 < ?l" using assms by (auto simp: div_greater_zero_iff mod_eq_0_iff_dvd dvd_imp_le)
  have "py_index t_atts (att_layer_index ?l i) = Inr (t_atts ! (i * ?l + ?l - 1))"
    if "i \<in> set [0..<S]" for i
  proof -
    from that have "i < S" by simp
    from block_index_bound[OF assms(1,3) this] l have "i * ?l + ?l - 1 < ?T" by linarith
    then show ?thesis by (simp add: att_layer_index_nat[OF l] py_index_nat)
  qed
  then show ?thesis
    unfolding new_teacher_atts_def by (rule collect_map_Inr)
qed

lemma new_teacher_reps_aligned:
  assumes "0 < S" "T mod S = 0" "T < length t_reps"
  shows "new_teacher_reps t_reps S (T div S) =
           Inr (map (\<lambda>i. t_reps ! (i * (T div S))) [0..<S + 1])"
proof -
  let ?l = "T div S"
  have "py_index t_reps (rep_layer_index ?l i) = Inr (t_reps ! (i * ?l))"
    if "i \<in> set [0..<S + 1]" for i
  proof -
    from that have "i \<le> S" by auto
    then have "i * ?l \<le> S * ?l" by (rule mult_le_mono1)
    also have "S * ?l = T" using assms(2) by auto
    finally have "i * ?l < length t_reps" using assms(3) by simp
    then have "py_index t_reps (int (i * ?l)) = Inr (t_reps ! (i * ?l))" by (rule py_index_nat)
    then show ?thesis by (simp add: rep_layer_index_def)
  qed
  then show ?thesis
    unfolding new_teacher_reps_def by (rule collect_map_Inr)
qed

text \<open>
  Claim C3. With \<open>T\<close> teacher layers, \<open>S\<close> student layers, \<open>S\<close> dividing \<open>T\<close> and
  \<open>layers_per_block = T div S\<close>, the selection of line 376 succeeds and takes teacher
  attention \<open>i * layers_per_block + layers_per_block - 1\<close> for each \<open>i < S\<close>, the
  selection of line 389 takes teacher representation \<open>i * layers_per_block\<close> for each
  \<open>i \<le> S\<close>, and the loss of the batch is the attention loss over the pairs (student
  \<open>i\<close>, that teacher attention) and the representation loss over the pairs (student
  \<open>i\<close>, that teacher representation). For \<open>T = 12\<close> and \<open>S = 4\<close> the teacher indices
  are \<open>[2, 5, 8, 11]\<close> and \<open>[0, 3, 6, 9, 12]\<close>. The teacher returns one representation
  more than it has layers, the student likewise.
\<close>

theorem layer_alignment:
  assumes "length (teacher_atts b) = T" and "length (student_atts b) = S"
    and "T < length (teacher_reps b)" and "length (student_reps b) = S + 1"
    and "0 < S" and "0 < T" and "T mod S = 0"
  shows "new_teacher_atts (teacher_atts b) S (T div S) =
           Inr (map (\<lambda>i. teacher_atts b ! (i * (T div S) + T div S - 1)) [0..<S]) \<and>
         new_teacher_reps (teacher_reps b) S (T div S) =
           Inr (map (\<lambda>i. teacher_reps b ! (i * (T div S))) [0..<S + 1]) \<and>
         distill_loss b =
           Inr (att_loss_of
                  (map (\<lambda>i. (student_atts b ! i, teacher_atts b ! (i * (T div S) + T div S - 1)))
                     [0..<S]),
                rep_loss_of
                  (map (\<lambda>i. (student_reps b ! i, teacher_reps b ! (i * (T div S))))
                     [0..<S + 1])) \<and>
         map (att_layer_index (12 div 4)) [0..<4] = [2, 5, 8, 11] \<and>
         map (rep_layer_index (12 div 4)) [0..<4 + 1] = [0, 3, 6, 9, 12]"
proof -
  have a: "new_teacher_atts (teacher_atts b) S (T div S) =
           Inr (map (\<lambda>i. teacher_atts b ! (i * (T div S) + T div S - 1)) [0..<S])"
    using new_teacher_atts_aligned[of S "teacher_atts b"] assms by simp
  have r: "new_teacher_reps (teacher_reps b) S (T div S) =
           Inr (map (\<lambda>i. teacher_reps b ! (i * (T div S))) [0..<S + 1])"
    using assms by (intro new_teacher_reps_aligned) simp_all
  have za: "zip (student_atts b) (map (\<lambda>i. teacher_atts b ! (i * (T div S) + T div S - 1)) [0..<S])
          = map (\<lambda>i. (student_atts b ! i, teacher_atts b ! (i * (T div S) + T div S - 1))) [0..<S]"
    using assms(2) by (rule zip_map_upt)
  have zr: "zip (student_reps b) (map (\<lambda>i. teacher_reps b ! (i * (T div S))) [0..<S + 1])
          = map (\<lambda>i. (student_reps b ! i, teacher_reps b ! (i * (T div S)))) [0..<S + 1]"
    using assms(4) by (rule zip_map_upt)
  have "distill_loss b =
           Inr (att_loss_of
                  (zip (student_atts b)
                     (map (\<lambda>i. teacher_atts b ! (i * (T div S) + T div S - 1)) [0..<S])),
                rep_loss_of
                  (zip (student_reps b)
                     (map (\<lambda>i. teacher_reps b ! (i * (T div S))) [0..<S + 1])))"
    using assms(1,2,4,5,7) by (auto simp: distill_loss_def Let_def a r simp del: upt_Suc)
  then have d: "distill_loss b =
           Inr (att_loss_of
                  (map (\<lambda>i. (student_atts b ! i, teacher_atts b ! (i * (T div S) + T div S - 1)))
                     [0..<S]),
                rep_loss_of
                  (map (\<lambda>i. (student_reps b ! i, teacher_reps b ! (i * (T div S))))
                     [0..<S + 1]))"
    by (simp only: za zr)
  have i1: "map (att_layer_index (12 div 4)) [0..<4] = [2, 5, 8, 11]"
    by code_simp
  have i2: "map (rep_layer_index (12 div 4)) [0..<4 + 1] = [0, 3, 6, 9, 12]"
    by code_simp
  from a r d i1 i2 show ?thesis by blast
qed

text \<open>
  The theorem at the batch with four teacher layers and two student layers.
\<close>

theorem layer_alignment_witness:
  "length (teacher_atts batch_4_2) = 4 \<and> length (student_atts batch_4_2) = 2 \<and>
   4 < length (teacher_reps batch_4_2) \<and> length (student_reps batch_4_2) = 2 + 1 \<and>
   (0::nat) < 2 \<and> (0::nat) < 4 \<and> (4::nat) mod 2 = 0 \<and>
   new_teacher_atts (teacher_atts batch_4_2) 2 (4 div 2) = Inr [[2], [4]] \<and>
   new_teacher_reps (teacher_reps batch_4_2) 2 (4 div 2) = Inr [[0], [2], [4]] \<and>
   distill_loss batch_4_2 = Inr (att_loss_of [([0], [2]), ([0], [4])],
                                 rep_loss_of [([0], [0]), ([0], [2]), ([0], [4])])"
proof -
  have h: "length (teacher_atts batch_4_2) = 4" "length (student_atts batch_4_2) = 2"
    "4 < length (teacher_reps batch_4_2)" "length (student_reps batch_4_2) = 2 + 1"
    "(0::nat) < 2" "(0::nat) < 4" "(4::nat) mod 2 = 0"
    by (simp_all add: batch_4_2_def)
  note t = layer_alignment[OF h]
  from t have a: "new_teacher_atts (teacher_atts batch_4_2) 2 (4 div 2) = Inr [[2], [4]]"
    by (simp add: upt_conv_Cons batch_4_2_def)
  from t have r: "new_teacher_reps (teacher_reps batch_4_2) 2 (4 div 2) = Inr [[0], [2], [4]]"
    by (simp add: upt_conv_Cons batch_4_2_def del: upt_Suc)
  from t have "distill_loss batch_4_2 =
           Inr (att_loss_of
                  (map (\<lambda>i. (student_atts batch_4_2 ! i, teacher_atts batch_4_2 ! (i * (4 div 2) + 4 div 2 - 1)))
                     [0..<2]),
                rep_loss_of
                  (map (\<lambda>i. (student_reps batch_4_2 ! i, teacher_reps batch_4_2 ! (i * (4 div 2))))
                     [0..<2 + 1]))"
    by blast
  then have d: "distill_loss batch_4_2 = Inr (att_loss_of [([0], [2]), ([0], [4])],
                                 rep_loss_of [([0], [0]), ([0], [2]), ([0], [4])])"
    by (simp add: upt_conv_Cons batch_4_2_def del: upt_Suc)
  from h a r d show ?thesis by blast
qed

lemma fold_add_sum_list:
  "fold (\<lambda>x (acc::real). acc + f x) xs a = a + sum_list (map f xs)"
  by (induction xs arbitrary: a) simp_all

lemma att_loss_of_sum:
  "att_loss_of pairs =
     sum_list (map (\<lambda>(s, t). loss_mse (map zero_padding s) (map zero_padding t)) pairs)"
proof -
  have "(\<lambda>(student_att, teacher_att) att_loss.
             att_loss + loss_mse (map zero_padding student_att) (map zero_padding teacher_att))
        = (\<lambda>x (acc::real). acc + (\<lambda>(s, t). loss_mse (map zero_padding s) (map zero_padding t)) x)"
    by (auto simp: fun_eq_iff)
  then show ?thesis
    by (simp add: att_loss_of_def fold_add_sum_list)
qed

lemma squared_errors_nth:
  "i < length s \<Longrightarrow> i < length t \<Longrightarrow> squared_errors s t ! i = (s ! i - t ! i)\<^sup>2"
  by (simp add: squared_errors_def)

text \<open>
  Claim C7. The attention loss is the sum, over the aligned pairs, of the mean squared
  error of the two tensors after \<open>zero_padding\<close>. On either side an entry at or below
  \<open>-100\<close> becomes 0 and every other entry stays; an index where both sides are at or
  below \<open>-100\<close> has squared error 0, so for tensors of the same shape the loss of a pair
  is the sum over the other indices only, divided by the number of entries.
\<close>

theorem attention_padding_is_zeroed:
  "att_loss_of pairs =
     sum_list (map (\<lambda>(s, t). loss_mse (map zero_padding s) (map zero_padding t)) pairs) \<and>
   (\<forall>i. i < length s \<and> i < length t \<longrightarrow>
      map zero_padding s ! i = (if s ! i \<le> - 100 then 0 else s ! i) \<and>
      map zero_padding t ! i = (if t ! i \<le> - 100 then 0 else t ! i) \<and>
      (s ! i \<le> - 100 \<and> t ! i \<le> - 100 \<longrightarrow>
         squared_errors (map zero_padding s) (map zero_padding t) ! i = 0)) \<and>
   (length s = length t \<longrightarrow>
      loss_mse (map zero_padding s) (map zero_padding t) =
        sum_list (map (\<lambda>i. if s ! i \<le> - 100 \<and> t ! i \<le> - 100 then 0
                             else (zero_padding (s ! i) - zero_padding (t ! i))\<^sup>2)
                    [0..<length s]) / real (length s))"
proof (intro conjI allI impI)
  show "att_loss_of pairs =
     sum_list (map (\<lambda>(s, t). loss_mse (map zero_padding s) (map zero_padding t)) pairs)"
    by (rule att_loss_of_sum)
next
  fix i assume i: "i < length s \<and> i < length t"
  then show "map zero_padding s ! i = (if s ! i \<le> - 100 then 0 else s ! i)"
    by (simp add: zero_padding_def)
  from i show "map zero_padding t ! i = (if t ! i \<le> - 100 then 0 else t ! i)"
    by (simp add: zero_padding_def)
  assume "s ! i \<le> - 100 \<and> t ! i \<le> - 100"
  with i show "squared_errors (map zero_padding s) (map zero_padding t) ! i = 0"
    by (simp add: squared_errors_nth zero_padding_def)
next
  assume len: "length s = length t"
  let ?se = "squared_errors (map zero_padding s) (map zero_padding t)"
  have l: "length ?se = length s"
    using len by (simp add: squared_errors_def)
  have "?se = map (\<lambda>i. ?se ! i) [0..<length ?se]"
    by (simp add: map_nth)
  also have "\<dots> = map (\<lambda>i. if s ! i \<le> - 100 \<and> t ! i \<le> - 100 then 0
                             else (zero_padding (s ! i) - zero_padding (t ! i))\<^sup>2)
                    [0..<length s]"
    unfolding l using len
    by (intro map_cong refl) (auto simp: squared_errors_nth zero_padding_def)
  finally have "sum_list ?se =
      sum_list (map (\<lambda>i. if s ! i \<le> - 100 \<and> t ! i \<le> - 100 then 0
                             else (zero_padding (s ! i) - zero_padding (t ! i))\<^sup>2)
                    [0..<length s])"
    by simp
  then show "loss_mse (map zero_padding s) (map zero_padding t) =
        sum_list (map (\<lambda>i. if s ! i \<le> - 100 \<and> t ! i \<le> - 100 then 0
                             else (zero_padding (s ! i) - zero_padding (t ! i))\<^sup>2)
                    [0..<length s]) / real (length s)"
    by (simp add: loss_mse_def)
qed

text \<open>
  The theorem at the two tensors with a masked first entry: only the second entry
  counts, \<open>(1 - 3)\<^sup>2 / 2 = 2\<close>.
\<close>

theorem attention_padding_is_zeroed_witness:
  "0 < length att_padded_student \<and> 0 < length att_padded_teacher \<and>
   att_padded_student ! 0 \<le> - 100 \<and> att_padded_teacher ! 0 \<le> - 100 \<and>
   length att_padded_student = length att_padded_teacher \<and>
   map zero_padding att_padded_student ! 0 = 0 \<and>
   map zero_padding att_padded_teacher ! 0 = 0 \<and>
   squared_errors (map zero_padding att_padded_student) (map zero_padding att_padded_teacher) ! 0 = 0 \<and>
   loss_mse (map zero_padding att_padded_student) (map zero_padding att_padded_teacher) = 2 \<and>
   att_loss_of [(att_padded_student, att_padded_teacher)] = 2"
proof -
  note t = attention_padding_is_zeroed
    [of "[(att_padded_student, att_padded_teacher)]" att_padded_student att_padded_teacher]
  have h: "0 < length att_padded_student" "0 < length att_padded_teacher"
    "att_padded_student ! 0 \<le> - 100" "att_padded_teacher ! 0 \<le> - 100"
    "length att_padded_student = length att_padded_teacher"
    by (simp_all add: att_padded_student_def att_padded_teacher_def)
  from t h(1,2) have m: "map zero_padding att_padded_student ! 0 =
        (if att_padded_student ! 0 \<le> - 100 then 0 else att_padded_student ! 0)"
    "map zero_padding att_padded_teacher ! 0 =
        (if att_padded_teacher ! 0 \<le> - 100 then 0 else att_padded_teacher ! 0)"
    by blast+
  from m h(3,4) have m0: "map zero_padding att_padded_student ! 0 = 0"
    "map zero_padding att_padded_teacher ! 0 = 0"
    by simp_all
  from t h(1-4) have z: "squared_errors (map zero_padding att_padded_student)
      (map zero_padding att_padded_teacher) ! 0 = 0"
    by blast
  from t h(5) have "loss_mse (map zero_padding att_padded_student) (map zero_padding att_padded_teacher) =
        sum_list (map (\<lambda>i. if att_padded_student ! i \<le> - 100 \<and> att_padded_teacher ! i \<le> - 100 then 0
                             else (zero_padding (att_padded_student ! i) - zero_padding (att_padded_teacher ! i))\<^sup>2)
                    [0..<length att_padded_student]) / real (length att_padded_student)"
    by blast
  then have l: "loss_mse (map zero_padding att_padded_student) (map zero_padding att_padded_teacher) = 2"
    by (simp add: att_padded_student_def att_padded_teacher_def zero_padding_def upt_conv_Cons)
  from t have "att_loss_of [(att_padded_student, att_padded_teacher)] =
     sum_list (map (\<lambda>(s, t). loss_mse (map zero_padding s) (map zero_padding t))
        [(att_padded_student, att_padded_teacher)])"
    by blast
  with l have a: "att_loss_of [(att_padded_student, att_padded_teacher)] = 2"
    by simp
  from h m0 z l a show ?thesis by blast
qed

subsection \<open>The pregenerated epochs\<close>




subsection \<open>The training loop\<close>

text \<open>
  Claim C9. A batch whose size differs from the per-device batch size leaves the whole
  state as it was: no forward or backward pass is recorded, the running sums, the example
  count and the step count keep their values, and nothing else of the loop body runs for
  it; the epoch goes on with the next batch. This holds whatever the two networks would
  return on the batch.
\<close>

theorem partial_batch_is_skipped:
  assumes "int (batch_size b) \<noteq> per_device_batch_size a"
  shows "train_batch a ep_step epoch step b s = Inr s \<and>
         run_batches a ep_step epoch step (b # bs) s = run_batches a ep_step epoch (Suc step) bs s"
  using assms by (simp add: train_batch_def)

text \<open>
  The theorem at a batch of one example where the per-device batch size is 2.
\<close>

theorem partial_batch_is_skipped_witness:
  "int (batch_size (unit_batch 1)) \<noteq> per_device_batch_size args_acc2 \<and>
   train_batch args_acc2 0 0 3 (unit_batch 1) init_state = Inr init_state \<and>
   run_batches args_acc2 0 0 3 [unit_batch 1] init_state = Inr init_state"
proof -
  have h: "int (batch_size (unit_batch 1)) \<noteq> per_device_batch_size args_acc2"
    by (simp add: unit_batch_def args_acc2_def per_device_batch_size_def)
  from partial_batch_is_skipped[OF h, of 0 0 3 init_state "[]"] h
  show ?thesis by simp
qed

lemma update_steps_Nil: "update_steps a ep_step step [] = []"
  by (simp add: update_steps_def)

lemma update_steps_Cons:
  "update_steps a ep_step step (b # bs) =
     (if ep_step \<le> step \<and> int (batch_size b) = per_device_batch_size a \<and>
         (int step + 1) mod gradient_accumulation_steps a = 0 then [step] else []) @
     update_steps a ep_step (Suc step) bs"
proof -
  have u: "[step..<step + length (b # bs)] = step # [Suc step..<Suc step + length bs]"
    using upt_conv_Cons[of step "step + Suc (length bs)"] by simp
  have t: "filter (\<lambda>k. ep_step \<le> k \<and>
                 int (batch_size ((b # bs) ! (k - step))) = per_device_batch_size a \<and>
                 (int k + 1) mod gradient_accumulation_steps a = 0)
             [Suc step..<Suc step + length bs]
         = update_steps a ep_step (Suc step) bs"
    unfolding update_steps_def
  proof (rule filter_cong[OF refl])
    fix k assume "k \<in> set [Suc step..<Suc step + length bs]"
    then have "k - step = Suc (k - Suc step)" by auto
    then show "(ep_step \<le> k \<and>
                 int (batch_size ((b # bs) ! (k - step))) = per_device_batch_size a \<and>
                 (int k + 1) mod gradient_accumulation_steps a = 0) =
               (ep_step \<le> k \<and>
                 int (batch_size (bs ! (k - Suc step))) = per_device_batch_size a \<and>
                 (int k + 1) mod gradient_accumulation_steps a = 0)"
      by simp
  qed
  show ?thesis
    unfolding update_steps_def[of a ep_step step "b # bs"] u
    using t by simp
qed

lemma emit_fields:
  "global_step (emit es s) = global_step s" "trace (emit es s) = trace s @ es"
  by (simp_all add: emit_def)

lemma accumulate_fields:
  "global_step (accumulate a b x y s) = global_step s" "trace (accumulate a b x y s) = trace s"
  by (simp_all add: accumulate_def Let_def)

lemma optimizer_update_fields:
  "global_step (optimizer_update a step s) =
     global_step s + (if (int step + 1) mod gradient_accumulation_steps a = 0 then 1 else 0)"
  "updates_of (trace (optimizer_update a step s)) =
     updates_of (trace s) @
     (if (int step + 1) mod gradient_accumulation_steps a = 0 then [OptimizerStep, ZeroGrad] else [])"
  by (simp_all add: optimizer_update_def emit_def updates_of_def)

lemma save_snapshot_fields:
  "global_step (save_snapshot epoch step s) = global_step s"
  "updates_of (trace (save_snapshot epoch step s)) = updates_of (trace s)"
  by (simp_all add: save_snapshot_def emit_def updates_of_def Let_def)

lemma log_eval_fields:
  assumes "eval_step a \<noteq> 0"
  shows "\<exists>s'. log_eval a s = Inr s' \<and> global_step s' = global_step s \<and>
              updates_of (trace s') = updates_of (trace s)"
  using assms by (simp add: log_eval_def emit_def updates_of_def)

lemma train_batch_skip:
  "step < ep_step \<or> int (batch_size b) \<noteq> per_device_batch_size a \<Longrightarrow>
   train_batch a ep_step epoch step b s = Inr s"
  by (auto simp: train_batch_def)

lemma train_batch_processed:
  assumes "1 \<le> gradient_accumulation_steps a" and "local_rank a \<noteq> 0 \<or> eval_step a \<noteq> 0"
    and "distill_loss b = Inr l" and "ep_step \<le> step"
    and "int (batch_size b) = per_device_batch_size a"
  shows "\<exists>s'. train_batch a ep_step epoch step b s = Inr s' \<and>
           global_step s' = global_step s +
             (if (int step + 1) mod gradient_accumulation_steps a = 0 then 1 else 0) \<and>
           updates_of (trace s') = updates_of (trace s) @
             (if (int step + 1) mod gradient_accumulation_steps a = 0
              then [OptimizerStep, ZeroGrad] else [])"
proof -
  obtain x y where l: "l = (x, y)" by (cases l)
  let ?s1 = "accumulate a b x y (emit [Forward epoch step, Backward epoch step] s)"
  let ?s2 = "optimizer_update a step ?s1"
  have g1: "global_step ?s1 = global_step s"
    by (simp add: accumulate_fields emit_fields)
  have t1: "updates_of (trace ?s1) = updates_of (trace s)"
    by (simp add: accumulate_fields emit_fields updates_of_def)
  have tb: "train_batch a ep_step epoch step b s =
          (if local_rank a = 0 then log_eval a (save_snapshot epoch step ?s2) else Inr ?s2)"
    using assms l by (simp add: train_batch_def Let_def)
  show ?thesis
  proof (cases "local_rank a = 0")
    case False
    with tb have "train_batch a ep_step epoch step b s = Inr ?s2" by simp
    then show ?thesis
      by (simp add: optimizer_update_fields g1 t1)
  next
    case True
    with assms(2) have "eval_step a \<noteq> 0" by simp
    from log_eval_fields[OF this, of "save_snapshot epoch step ?s2"]
    obtain s' where "log_eval a (save_snapshot epoch step ?s2) = Inr s'"
      and "global_step s' = global_step ?s2"
      and "updates_of (trace s') = updates_of (trace ?s2)"
      by (auto simp: save_snapshot_fields)
    with tb True show ?thesis
      by (simp add: optimizer_update_fields g1 t1)
  qed
qed

lemma run_batches_updates:
  assumes "1 \<le> gradient_accumulation_steps a" and "local_rank a \<noteq> 0 \<or> eval_step a \<noteq> 0"
    and "\<forall>b\<in>set bs. int (batch_size b) = per_device_batch_size a \<longrightarrow> (\<exists>l. distill_loss b = Inr l)"
  shows "\<exists>s'. run_batches a ep_step epoch step bs s = Inr s' \<and>
           global_step s' = global_step s + length (update_steps a ep_step step bs) \<and>
           updates_of (trace s') = updates_of (trace s) @
             concat (map (\<lambda>k. [OptimizerStep, ZeroGrad]) (update_steps a ep_step step bs))"
  using assms(3)
proof (induction bs arbitrary: step s)
  case Nil
  then show ?case by (simp add: update_steps_Nil)
next
  case (Cons b bs)
  from Cons.prems have rest:
    "\<forall>b\<in>set bs. int (batch_size b) = per_device_batch_size a \<longrightarrow> (\<exists>l. distill_loss b = Inr l)"
    by simp
  show ?case
  proof (cases "step < ep_step \<or> int (batch_size b) \<noteq> per_device_batch_size a")
    case True
    then have sk: "train_batch a ep_step epoch step b s = Inr s" by (rule train_batch_skip)
    from True have us: "update_steps a ep_step step (b # bs) = update_steps a ep_step (Suc step) bs"
      by (auto simp: update_steps_Cons)
    from Cons.IH[OF rest, of "Suc step" s] sk us show ?thesis by simp
  next
    case False
    then have p: "ep_step \<le> step" "int (batch_size b) = per_device_batch_size a" by auto
    with Cons.prems obtain l where l: "distill_loss b = Inr l" by auto
    from train_batch_processed[OF assms(1,2) l p, of epoch s]
    obtain s1 where s1: "train_batch a ep_step epoch step b s = Inr s1"
      and g1: "global_step s1 = global_step s +
             (if (int step + 1) mod gradient_accumulation_steps a = 0 then 1 else 0)"
      and t1: "updates_of (trace s1) = updates_of (trace s) @
             (if (int step + 1) mod gradient_accumulation_steps a = 0
              then [OptimizerStep, ZeroGrad] else [])"
      by blast
    from Cons.IH[OF rest, of "Suc step" s1]
    obtain s' where r: "run_batches a ep_step epoch (Suc step) bs s1 = Inr s'"
      and g: "global_step s' = global_step s1 + length (update_steps a ep_step (Suc step) bs)"
      and t: "updates_of (trace s') = updates_of (trace s1) @
             concat (map (\<lambda>k. [OptimizerStep, ZeroGrad]) (update_steps a ep_step (Suc step) bs))"
      by blast
    from s1 r have "run_batches a ep_step epoch step (b # bs) s = Inr s'" by simp
    moreover from g g1 p have "global_step s' = global_step s + length (update_steps a ep_step step (b # bs))"
      by (simp add: update_steps_Cons)
    moreover from t t1 p have "updates_of (trace s') = updates_of (trace s) @
             concat (map (\<lambda>k. [OptimizerStep, ZeroGrad]) (update_steps a ep_step step (b # bs)))"
      by (simp add: update_steps_Cons)
    ultimately show ?thesis by blast
  qed
qed

lemma closes_group_nat:
  "1 \<le> N \<Longrightarrow> ((int k + 1) mod N = 0) = (Suc k mod nat N = 0)"
proof -
  assume "1 \<le> N"
  then have "int (Suc k mod nat N) = (int k + 1) mod N"
    by (simp add: zmod_int add.commute)
  then show ?thesis by (metis of_nat_eq_0_iff)
qed

lemma update_steps_all_processed:
  assumes "1 \<le> gradient_accumulation_steps a" and "ep_step \<le> step"
    and "\<forall>b\<in>set bs. int (batch_size b) = per_device_batch_size a"
  shows "length (update_steps a ep_step step bs) =
           (step + length bs) div nat (gradient_accumulation_steps a) -
           step div nat (gradient_accumulation_steps a)"
  using assms(2,3)
proof (induction bs arbitrary: step)
  case Nil
  then show ?case by (simp add: update_steps_Nil)
next
  case (Cons b bs)
  let ?n = "nat (gradient_accumulation_steps a)"
  from Cons.prems have ih: "length (update_steps a ep_step (Suc step) bs) =
           (Suc step + length bs) div ?n - Suc step div ?n"
    by (intro Cons.IH) simp_all
  have mono: "Suc step div ?n \<le> (Suc step + length bs) div ?n"
    by (rule div_le_mono) simp
  from Cons.prems ih mono show ?case
    by (simp add: update_steps_Cons closes_group_nat[OF assms(1)] div_Suc)
qed

text \<open>
  Claim C2, as amended. With \<open>gradient_accumulation_steps \<ge> 1\<close> the batch iteration of
  an epoch returns (the networks' outputs being well formed and \<open>eval_step\<close> non-zero on
  rank 0), and the optimizer step, the clearing of the gradients and the increment of the
  global step happen together, once for each index of \<open>update_steps\<close> and never
  otherwise: at the batches that are not skipped and whose raw index \<open>step\<close> has
  \<open>(step + 1) mod gradient_accumulation_steps = 0\<close>. When no batch is skipped
  (\<open>ep_step = 0\<close> and every batch has the per-device size) that is
  \<open>len(batches) div gradient_accumulation_steps\<close> times, so a final group of fewer
  batches triggers nothing.
\<close>

theorem optimizer_update_at_closed_groups:
  assumes "1 \<le> gradient_accumulation_steps a" and "local_rank a \<noteq> 0 \<or> eval_step a \<noteq> 0"
    and "\<forall>b\<in>set bs. int (batch_size b) = per_device_batch_size a \<longrightarrow> (\<exists>l. distill_loss b = Inr l)"
  shows "\<exists>s'. run_batches a ep_step epoch 0 bs s = Inr s' \<and>
           global_step s' = global_step s + length (update_steps a ep_step 0 bs) \<and>
           updates_of (trace s') = updates_of (trace s) @
             concat (map (\<lambda>k. [OptimizerStep, ZeroGrad]) (update_steps a ep_step 0 bs)) \<and>
           (ep_step = 0 \<and> (\<forall>b\<in>set bs. int (batch_size b) = per_device_batch_size a) \<longrightarrow>
              length (update_steps a ep_step 0 bs) =
                length bs div nat (gradient_accumulation_steps a))"
proof -
  from run_batches_updates[OF assms, of ep_step epoch 0 s]
  obtain s' where r: "run_batches a ep_step epoch 0 bs s = Inr s'"
    and g: "global_step s' = global_step s + length (update_steps a ep_step 0 bs)"
    and t: "updates_of (trace s') = updates_of (trace s) @
             concat (map (\<lambda>k. [OptimizerStep, ZeroGrad]) (update_steps a ep_step 0 bs))"
    by blast
  have n: "length (update_steps a ep_step 0 bs) = length bs div nat (gradient_accumulation_steps a)"
    if "ep_step = 0 \<and> (\<forall>b\<in>set bs. int (batch_size b) = per_device_batch_size a)"
    using update_steps_all_processed[OF assms(1), of ep_step 0 bs] that by simp
  from r g t n show ?thesis by blast
qed

lemma distill_loss_unit_batch: "distill_loss (unit_batch n) = Inr (1, 4)"
  by (simp add: distill_loss_def unit_batch_def new_teacher_atts_def new_teacher_reps_def
      py_index_def att_layer_index_def rep_layer_index_def att_loss_of_def rep_loss_of_def
      loss_mse_def squared_errors_def zero_padding_def)

text \<open>
  The theorem at five full batches in groups of two: two updates, none for the fifth
  batch.
\<close>

theorem optimizer_update_at_closed_groups_witness:
  "1 \<le> gradient_accumulation_steps args_acc2 \<and> eval_step args_acc2 \<noteq> 0 \<and>
   list_all (\<lambda>b. int (batch_size b) = per_device_batch_size args_acc2 \<and>
                 distill_loss b = Inr (1, 4)) batches_10_by_2 \<and>
   (\<exists>s'. run_batches args_acc2 0 0 0 batches_10_by_2 init_state = Inr s' \<and>
         global_step s' = 2 \<and>
         updates_of (trace s') = [OptimizerStep, ZeroGrad, OptimizerStep, ZeroGrad] \<and>
         length batches_10_by_2 div nat (gradient_accumulation_steps args_acc2) = 2)"
proof -
  have h1: "1 \<le> gradient_accumulation_steps args_acc2"
    and h2: "local_rank args_acc2 \<noteq> 0 \<or> eval_step args_acc2 \<noteq> 0"
    by (simp_all add: args_acc2_def)
  have full: "\<forall>b\<in>set batches_10_by_2. int (batch_size b) = per_device_batch_size args_acc2"
    by (simp add: batches_10_by_2_def unit_batch_def args_acc2_def per_device_batch_size_def)
  have h3: "\<forall>b\<in>set batches_10_by_2.
      int (batch_size b) = per_device_batch_size args_acc2 \<longrightarrow> (\<exists>l. distill_loss b = Inr l)"
    by (simp add: batches_10_by_2_def distill_loss_unit_batch)
  from optimizer_update_at_closed_groups[OF h1 h2 h3, of 0 0 init_state] full
  obtain s' where r: "run_batches args_acc2 0 0 0 batches_10_by_2 init_state = Inr s'"
    and g: "global_step s' = global_step init_state + length (update_steps args_acc2 0 0 batches_10_by_2)"
    and t: "updates_of (trace s') = updates_of (trace init_state) @
             concat (map (\<lambda>k. [OptimizerStep, ZeroGrad]) (update_steps args_acc2 0 0 batches_10_by_2))"
    and n: "length (update_steps args_acc2 0 0 batches_10_by_2) =
                length batches_10_by_2 div nat (gradient_accumulation_steps args_acc2)"
    by blast
  have d: "length batches_10_by_2 div nat (gradient_accumulation_steps args_acc2) = 2"
    by (simp add: batches_10_by_2_def args_acc2_def)
  have u: "update_steps args_acc2 0 0 batches_10_by_2 = [1, 3]"
    by (simp add: update_steps_def batches_10_by_2_def args_acc2_def unit_batch_def
        per_device_batch_size_def upt_conv_Cons)
  from g n d have g': "global_step s' = 2" by (simp add: init_state_def)
  from t u have t': "updates_of (trace s') = [OptimizerStep, ZeroGrad, OptimizerStep, ZeroGrad]"
    by (simp add: init_state_def updates_of_def)
  have l: "list_all (\<lambda>b. int (batch_size b) = per_device_batch_size args_acc2 \<and>
                 distill_loss b = Inr (1, 4)) batches_10_by_2"
    using full by (simp add: batches_10_by_2_def distill_loss_unit_batch)
  have e: "eval_step args_acc2 \<noteq> 0" by (simp add: args_acc2_def)
  from h1 e l r g' t' d show ?thesis by blast
qed

text \<open>
  Claim C2 as stated fails when a skipped batch closes a group: with groups of two and
  the batches of seven examples, the fourth raw batch is the short one, and the four raw
  batches see one update where one for every two raw batches would be two.
\<close>

theorem optimizer_update_trailing_batch_counterexample:
  "length batches_7_by_2 = 4 \<and> gradient_accumulation_steps args_acc2 = 2 \<and>
   on_result (\<lambda>s. (global_step s, updates_of (trace s)))
     (run_batches args_acc2 0 0 0 batches_7_by_2 init_state) = Inr (1, [OptimizerStep, ZeroGrad]) \<and>
   (1::nat) \<noteq> 4 div 2"
  by (simp add: on_result_def batches_7_by_2_def train_batch_def unit_batch_def args_acc2_def
      init_state_def distill_loss_def per_device_batch_size_def new_teacher_atts_def
      new_teacher_reps_def py_index_def att_layer_index_def rep_layer_index_def accumulate_def
      optimizer_update_def save_snapshot_def log_eval_def emit_def updates_of_def Let_def)

text \<open>
  Claim C8 fails on the code. The test of line 458 runs for every processed batch, not
  for every increment of the global step: with groups of two batches and
  \<open>eval_step = 2\<close>, four batches raise the global step to 2 and log two records, both
  at global step 1.
\<close>

theorem eval_log_repeats_within_a_group:
  "on_result (\<lambda>s. (global_step s, logged_steps (trace s)))
     (run_batches args_acc2 0 0 0 [unit_batch 2, unit_batch 2, unit_batch 2, unit_batch 2] init_state)
   = Inr (2, [1, 1])"
  by (simp add: on_result_def train_batch_def unit_batch_def args_acc2_def
      init_state_def distill_loss_def per_device_batch_size_def new_teacher_atts_def
      new_teacher_reps_def py_index_def att_layer_index_def rep_layer_index_def accumulate_def
      optimizer_update_def save_snapshot_def log_eval_def emit_def mean_result_def Let_def)

text \<open>
  Claim C1 fails on the code for the epochs after the recorded one. The counters are
  restored and the recorded epoch 0 is entered at step 10, but \<open>ep_step\<close> is never
  reset: epoch 1 also skips its steps 0 to 9, and only four of the fourteen remaining
  batches are processed.
\<close>

theorem resume_skips_steps_in_later_epochs:
  "restore (Some snapshot_0_10) = (0, 10, 11) \<and>
   on_result (\<lambda>s. (global_step s, forward_steps (trace s)))
     (main tok_len args_resume shards_24 loader_12 (Some snapshot_0_10))
   = Inr (15, [(0, 10), (0, 11), (1, 10), (1, 11)])"
  by code_simp


end
